theory Spec2Isabelle
  imports Main
begin

section \<open>Shared protocol vocabulary\<close>

text \<open>
  \<^verbatim>\<open>QString\<close> and \<^verbatim>\<open>QByteArray\<close> are character sequences; the default-constructed
  value of either is the empty sequence.
\<close>

type_synonym QString = string
type_synonym QByteArray = string

text \<open>
  The close codes of \<^verbatim>\<open>QWebSocketProtocol\<close>. The sources name two of them:
  \<^verbatim>\<open>CC_GOING_AWAY\<close> (qwebsocketserver.cpp, the destructor) and
  \<^verbatim>\<open>CloseCodeNormal\<close> (qwebsocketthreaded.h, the default argument of close()).
  Every other code is kept by its number.
\<close>

datatype CloseCode = CloseCodeNormal | CC_GOING_AWAY | CloseCodeOther nat

text \<open>\<^verbatim>\<open>QAbstractSocket::SocketState\<close>, all seven enumerators.\<close>

datatype SocketState =
    UnconnectedState
  | HostLookupState
  | ConnectingState
  | ConnectedState
  | BoundState
  | ListeningState
  | ClosingState

text \<open>\<^verbatim>\<open>QAbstractSocket::SocketError\<close> is only passed along (Q_UNUSED); its number suffices.\<close>

type_synonym SocketError = int

section \<open>The server: src/source/qwebsocketserver.cpp\<close>

subsection \<open>Raw streams and upgraded connections\<close>

text \<open>
  What \<^verbatim>\<open>handshakeReceived\<close> does to the sender's \<^verbatim>\<open>QTcpSocket\<close>, in order: the text
  stream reads the request from it, the readyRead connection is removed, the response
  is written and flushed, the socket is closed.
\<close>

datatype 'r SockAction =
    SockRead
  | SockDisconnectReadyRead
  | SockWrite 'r
  | SockFlush
  | SockClose

record 'r QTcpSocket =
  peerPort :: nat
  sock_log :: "'r SockAction list"

text \<open>
  A \<^verbatim>\<open>QWebSocket\<close> on the server side: the stream it was upgraded from and every
  \<^verbatim>\<open>close(code, reason)\<close> call it has received.
\<close>

record 'r QWebSocket =
  ws_socket :: "'r QTcpSocket"
  ws_closeCalls :: "(CloseCode \<times> QString) list"

subsection \<open>Handshake value objects\<close>

text \<open>
  Modelled from the spec: the classes HandshakeRequest and HandshakeResponse
  (handshakerequest_p.h, handshakeresponse_p.h) are included by qwebsocketserver.cpp but
  are not among the sources. The request is the parsed form the spec lists in its data
  model: method, the headers \<^verbatim>\<open>Upgrade\<close>, \<^verbatim>\<open>Connection\<close>, \<^verbatim>\<open>Sec-WebSocket-Key\<close>,
  \<^verbatim>\<open>Sec-WebSocket-Version\<close>, \<^verbatim>\<open>Origin\<close>, and the requested subprotocols and extensions.
  \<^verbatim>\<open>rq_wellFormed\<close> says that a request line and headers ended by the blank line were
  read; \<^verbatim>\<open>rq_key\<close> is \<open>None\<close> when the request has no \<^verbatim>\<open>Sec-WebSocket-Key\<close> header.
\<close>

record HandshakeRequest =
  rq_wellFormed :: bool
  rq_method :: string
  rq_upgradeWebsocket :: bool
  rq_connectionUpgrade :: bool
  rq_key :: "string option"
  rq_versions :: "int list"
  rq_origin :: QString
  rq_protocols :: "QString list"
  rq_extensions :: "QString list"

text \<open>
  Modelled from the spec: the response "holds status line, headers, and a
  validity/upgradeability flag". The source reads the two flags through
  \<^verbatim>\<open>isValid()\<close> and \<^verbatim>\<open>canUpgrade()\<close>.
\<close>

record HandshakeResponse =
  isValid :: bool
  canUpgrade :: bool
  rs_status :: nat
  rs_key :: "string option"
  rs_protocols :: "QString list"
  rs_extensions :: "QString list"

definition getOrigin :: "HandshakeRequest \<Rightarrow> QString" where
  "getOrigin request = rq_origin request"

text \<open>
  Modelled from the spec: the constructor of HandshakeResponse (handshakeresponse_p.h is
  not among the sources), following section 4.2 of the spec. Validation: the required
  headers are present (\<^verbatim>\<open>Upgrade: websocket\<close>, a \<^verbatim>\<open>Connection\<close> header containing
  \<^verbatim>\<open>Upgrade\<close>, \<^verbatim>\<open>Sec-WebSocket-Key\<close>, a \<^verbatim>\<open>Sec-WebSocket-Version\<close> among the supported
  ones), the method is GET, the origin is allowed. On success the status is 101 and the
  response carries the key the accept value is derived from, with the mutually agreed
  subprotocols and extensions; on failure the status is 400 and no upgrade is attempted.
\<close>

definition HandshakeResponse_new ::
  "HandshakeRequest \<Rightarrow> QString \<Rightarrow> bool \<Rightarrow> int list \<Rightarrow> QString list \<Rightarrow> QString list
     \<Rightarrow> HandshakeResponse" where
  "HandshakeResponse_new request serverName originAllowed versions protocols extensions =
     (let ok = (rq_wellFormed request \<and> rq_method request = ''GET''
                \<and> rq_upgradeWebsocket request \<and> rq_connectionUpgrade request
                \<and> rq_key request \<noteq> None
                \<and> filter (\<lambda>v. v \<in> set versions) (rq_versions request) \<noteq> []
                \<and> originAllowed)
      in \<lparr> isValid = True,
           canUpgrade = ok,
           rs_status = (if ok then 101 else 400),
           rs_key = (if ok then rq_key request else None),
           rs_protocols = (if ok then filter (\<lambda>p. p \<in> set protocols) (rq_protocols request) else []),
           rs_extensions = (if ok then filter (\<lambda>e. e \<in> set extensions) (rq_extensions request) else []) \<rparr>)"

text \<open>
  \<^verbatim>\<open>QWebSocket::upgradeFrom\<close> is not among the sources; the server only tests its result
  against null. This instance always succeeds and wraps the stream it is given.
\<close>

definition upgradeFrom_wrap ::
  "HandshakeResponse QTcpSocket \<Rightarrow> HandshakeRequest \<Rightarrow> HandshakeResponse
     \<Rightarrow> HandshakeResponse QWebSocket option" where
  "upgradeFrom_wrap pTcpSocket request response =
     Some \<lparr> ws_socket = pTcpSocket, ws_closeCalls = [] \<rparr>"

subsection \<open>The server object\<close>

text \<open>
  \<^verbatim>\<open>m_pTcpServer\<close> is a \<^verbatim>\<open>QTcpServer\<close>; of it the server uses the maximum number of
  pending connections, a C++ \<^verbatim>\<open>int\<close> (any value can be set). \<^verbatim>\<open>m_pendingConnections\<close>
  is a \<^verbatim>\<open>QQueue\<close>: enqueue appends, dequeue takes the head. \<^verbatim>\<open>ws_children\<close> are the
  connections made children of the server by \<^verbatim>\<open>setParent(this)\<close>, and
  \<^verbatim>\<open>newConnection_count\<close> counts the emissions of the signal \<^verbatim>\<open>newConnection()\<close>.
\<close>

record QTcpServer =
  tcp_maxPendingConnections :: int

record QWebSocketServer =
  m_pTcpServer :: QTcpServer
  m_serverName :: QString
  m_pendingConnections :: "HandshakeResponse QWebSocket list"
  ws_children :: "HandshakeResponse QWebSocket list"
  newConnection_count :: nat

text \<open>
  The constructor. A fresh \<^verbatim>\<open>QTcpServer\<close> allows 30 pending connections ("The default
  is 30", the documentation of \<^verbatim>\<open>maxPendingConnections\<close>).
\<close>

definition QWebSocketServer_new :: "QString \<Rightarrow> QWebSocketServer" where
  "QWebSocketServer_new serverName =
     \<lparr> m_pTcpServer = \<lparr> tcp_maxPendingConnections = 30 \<rparr>,
       m_serverName = serverName,
       m_pendingConnections = [],
       ws_children = [],
       newConnection_count = 0 \<rparr>"

definition hasPendingConnections :: "QWebSocketServer \<Rightarrow> bool" where
  "hasPendingConnections s = (\<not> (m_pendingConnections s = []))"

definition maxPendingConnections :: "QWebSocketServer \<Rightarrow> int" where
  "maxPendingConnections s = tcp_maxPendingConnections (m_pTcpServer s)"

definition setMaxPendingConnections :: "int \<Rightarrow> QWebSocketServer \<Rightarrow> QWebSocketServer" where
  "setMaxPendingConnections numConnections s =
     s\<lparr> m_pTcpServer := (m_pTcpServer s)\<lparr> tcp_maxPendingConnections := numConnections \<rparr> \<rparr>"

definition addPendingConnection ::
  "HandshakeResponse QWebSocket \<Rightarrow> QWebSocketServer \<Rightarrow> QWebSocketServer" where
  "addPendingConnection pWebSocket s =
     (if int (length (m_pendingConnections s)) < maxPendingConnections s
      then s\<lparr> m_pendingConnections := m_pendingConnections s @ [pWebSocket] \<rparr>
      else s)"

text \<open>The result is the returned pointer (\<open>None\<close> for the null pointer) and the server.\<close>

definition nextPendingConnection ::
  "QWebSocketServer \<Rightarrow> HandshakeResponse QWebSocket option \<times> QWebSocketServer" where
  "nextPendingConnection s =
     (case m_pendingConnections s of
        [] \<Rightarrow> (None, s)
      | pWebSocket # rest \<Rightarrow> (Some pWebSocket, s\<lparr> m_pendingConnections := rest \<rparr>))"

definition supportedVersions :: "QWebSocketServer \<Rightarrow> int list" where
  "supportedVersions s = [13]"

definition supportedProtocols :: "QWebSocketServer \<Rightarrow> QString list" where
  "supportedProtocols s = []"

definition supportedExtensions :: "QWebSocketServer \<Rightarrow> QString list" where
  "supportedExtensions s = []"

definition isOriginAllowed :: "QWebSocketServer \<Rightarrow> QString \<Rightarrow> bool" where
  "isOriginAllowed s origin = True"

text \<open>
  The destructor's loop: every connection still pending is dequeued and closed with
  \<^verbatim>\<open>CC_GOING_AWAY\<close>, "Server closed.". The result lists the connections as closed.
\<close>

fun closePending :: "HandshakeResponse QWebSocket list \<Rightarrow> HandshakeResponse QWebSocket list" where
  "closePending [] = []"
| "closePending (pWebSocket # rest) =
     pWebSocket\<lparr> ws_closeCalls := ws_closeCalls pWebSocket @ [(CC_GOING_AWAY, ''Server closed.'')] \<rparr>
       # closePending rest"

definition QWebSocketServer_destroy :: "QWebSocketServer \<Rightarrow> HandshakeResponse QWebSocket list" where
  "QWebSocketServer_destroy s = closePending (m_pendingConnections s)"

subsection \<open>handshakeReceived\<close>

text \<open>
  The two collaborators that are not among the sources are parameters: \<open>mk\<close> is the
  constructor of the response, \<open>up\<close> is \<^verbatim>\<open>QWebSocket::upgradeFrom\<close>. \<open>sender\<close> is the
  result of \<^verbatim>\<open>qobject_cast<QTcpSocket*>(sender())\<close>, \<open>None\<close> when it is null, and
  \<open>request\<close> is what \<^verbatim>\<open>textStream >> request\<close> reads. The result is the server and the
  sender's socket after the call.
\<close>

type_synonym ResponseCtor =
  "HandshakeRequest \<Rightarrow> QString \<Rightarrow> bool \<Rightarrow> int list \<Rightarrow> QString list \<Rightarrow> QString list
     \<Rightarrow> HandshakeResponse"

type_synonym UpgradeFrom =
  "HandshakeResponse QTcpSocket \<Rightarrow> HandshakeRequest \<Rightarrow> HandshakeResponse
     \<Rightarrow> HandshakeResponse QWebSocket option"

definition sock_do :: "'r SockAction list \<Rightarrow> 'r QTcpSocket \<Rightarrow> 'r QTcpSocket" where
  "sock_do acts sock = sock\<lparr> sock_log := sock_log sock @ acts \<rparr>"

definition handshakeResponseOf :: "ResponseCtor \<Rightarrow> HandshakeRequest \<Rightarrow> QWebSocketServer \<Rightarrow> HandshakeResponse" where
  "handshakeResponseOf mk request s =
     mk request (m_serverName s) (isOriginAllowed s (getOrigin request))
        (supportedVersions s) (supportedProtocols s) (supportedExtensions s)"

definition handshakeReceived ::
  "ResponseCtor \<Rightarrow> UpgradeFrom \<Rightarrow> HandshakeResponse QTcpSocket option \<Rightarrow> HandshakeRequest
     \<Rightarrow> QWebSocketServer \<Rightarrow> QWebSocketServer \<times> HandshakeResponse QTcpSocket option" where
  "handshakeReceived mk up sender request s =
     (case sender of
        None \<Rightarrow> (s, None)
      | Some pTcpSocket \<Rightarrow>
          (let response = handshakeResponseOf mk request s;
               sock1 = sock_do [SockRead, SockDisconnectReadyRead] pTcpSocket
           in if isValid response then
                (let sock2 = sock_do [SockWrite response, SockFlush] sock1
                 in if canUpgrade response then
                      (case up sock2 request response of
                         Some pWebSocket \<Rightarrow>
                           (let s1 = s\<lparr> ws_children := ws_children s @ [pWebSocket] \<rparr>;
                                s2 = addPendingConnection pWebSocket s1;
                                s3 = s2\<lparr> newConnection_count := Suc (newConnection_count s2) \<rparr>
                            in (s3, Some sock2))
                       | None \<Rightarrow> (s, Some (sock_do [SockClose] sock2)))
                    else (s, Some (sock_do [SockClose] sock2)))
              else (s, Some (sock_do [SockClose] sock1))))"

subsection \<open>Sequences of server events\<close>

datatype ServerEvent =
    HandshakeReceived "HandshakeResponse QTcpSocket option" HandshakeRequest
  | AddPendingConnection "HandshakeResponse QWebSocket"
  | NextPendingConnection

fun serverStep :: "ResponseCtor \<Rightarrow> UpgradeFrom \<Rightarrow> QWebSocketServer \<Rightarrow> ServerEvent \<Rightarrow> QWebSocketServer" where
  "serverStep mk up s (HandshakeReceived sender request) = fst (handshakeReceived mk up sender request s)"
| "serverStep mk up s (AddPendingConnection pWebSocket) = addPendingConnection pWebSocket s"
| "serverStep mk up s NextPendingConnection = snd (nextPendingConnection s)"

definition serverRun :: "ResponseCtor \<Rightarrow> UpgradeFrom \<Rightarrow> ServerEvent list \<Rightarrow> QWebSocketServer \<Rightarrow> QWebSocketServer" where
  "serverRun mk up evs s = foldl (serverStep mk up) s evs"

text \<open>\<open>acceptN n\<close> calls \<^verbatim>\<open>nextPendingConnection\<close> \<open>n\<close> times and lists the returned pointers.\<close>

fun acceptN :: "nat \<Rightarrow> QWebSocketServer \<Rightarrow> HandshakeResponse QWebSocket option list" where
  "acceptN 0 s = []"
| "acceptN (Suc n) s =
     fst (nextPendingConnection s) # acceptN n (snd (nextPendingConnection s))"

section \<open>The threaded facade: src/qmlwebsockets_threaded/qwebsocketthreaded.cpp\<close>

text \<open>
  A \<^verbatim>\<open>QUrl\<close> is its text together with what \<^verbatim>\<open>isValid()\<close> answers for it; the
  default-constructed URL is empty and invalid.
\<close>

datatype QUrl = QUrl (url_isValid: bool) (url_text: QString)

definition QUrl_default :: QUrl where
  "QUrl_default = QUrl False ''''"

text \<open>
  The four command signals are connected to the slots of the \<^verbatim>\<open>QWebSocket\<close> that lives
  in \<^verbatim>\<open>m_thread\<close>; emitting one posts it to that thread. \<^verbatim>\<open>T_commands\<close> is the sequence
  posted so far.
\<close>

datatype Command =
    closeCommand CloseCode QString
  | openCommand QUrl
  | sendTextMessageCommand QString
  | sendBinaryMessageCommand QByteArray

text \<open>The signals \<^verbatim>\<open>QWebSocketThreaded\<close> emits towards its user.\<close>

datatype ThreadedSignal =
    T_connected
  | T_disconnected
  | T_stateChanged SocketState
  | T_textMessageReceived QString
  | T_binaryMessageReceived QByteArray
  | T_error SocketError

record QWebSocketThreaded =
  T_m_errorString :: QString
  T_m_url :: QUrl
  T_m_state :: SocketState
  T_commands :: "Command list"
  T_signals :: "ThreadedSignal list"

text \<open>
  The constructor. \<^verbatim>\<open>m_errorString\<close> and \<^verbatim>\<open>m_url\<close> are default-constructed;
  \<^verbatim>\<open>m_state\<close> has no initialiser, so its first value is whatever \<open>uninitialised\<close> is.
\<close>

definition QWebSocketThreaded_new :: "SocketState \<Rightarrow> QWebSocketThreaded" where
  "QWebSocketThreaded_new uninitialised =
     \<lparr> T_m_errorString = '''',
       T_m_url = QUrl_default,
       T_m_state = uninitialised,
       T_commands = [],
       T_signals = [] \<rparr>"

definition Threaded_emit :: "ThreadedSignal \<Rightarrow> QWebSocketThreaded \<Rightarrow> QWebSocketThreaded" where
  "Threaded_emit sig w = w\<lparr> T_signals := T_signals w @ [sig] \<rparr>"

definition Threaded_post :: "Command \<Rightarrow> QWebSocketThreaded \<Rightarrow> QWebSocketThreaded" where
  "Threaded_post cmd w = w\<lparr> T_commands := T_commands w @ [cmd] \<rparr>"

definition Threaded_close :: "CloseCode \<Rightarrow> QString \<Rightarrow> QWebSocketThreaded \<Rightarrow> QWebSocketThreaded" where
  "Threaded_close closeCode reason w = Threaded_post (closeCommand closeCode reason) w"

definition Threaded_open :: "QUrl \<Rightarrow> QWebSocketThreaded \<Rightarrow> QWebSocketThreaded" where
  "Threaded_open url w = Threaded_post (openCommand url) (w\<lparr> T_m_url := url \<rparr>)"

definition connectedHandler :: "QWebSocketThreaded \<Rightarrow> QWebSocketThreaded" where
  "connectedHandler w = Threaded_emit T_connected w"

definition disconnectedHandler :: "QWebSocketThreaded \<Rightarrow> QWebSocketThreaded" where
  "disconnectedHandler w = Threaded_emit T_disconnected w"

definition stateChangedHandler :: "SocketState \<Rightarrow> QWebSocketThreaded \<Rightarrow> QWebSocketThreaded" where
  "stateChangedHandler state w = Threaded_emit (T_stateChanged state) (w\<lparr> T_m_state := state \<rparr>)"

definition textMessageReceivedHandler :: "QString \<Rightarrow> QWebSocketThreaded \<Rightarrow> QWebSocketThreaded" where
  "textMessageReceivedHandler message w = Threaded_emit (T_textMessageReceived message) w"

definition binaryMessageReceivedHandler :: "QByteArray \<Rightarrow> QWebSocketThreaded \<Rightarrow> QWebSocketThreaded" where
  "binaryMessageReceivedHandler message w = Threaded_emit (T_binaryMessageReceived message) w"

definition errorHandler :: "SocketError \<Rightarrow> QWebSocketThreaded \<Rightarrow> QWebSocketThreaded" where
  "errorHandler err w = Threaded_emit (T_error err) w"

definition Threaded_errorString :: "QWebSocketThreaded \<Rightarrow> QString" where
  "Threaded_errorString w = T_m_errorString w"

definition Threaded_state :: "QWebSocketThreaded \<Rightarrow> SocketState" where
  "Threaded_state w = T_m_state w"

definition Threaded_requestUrl :: "QWebSocketThreaded \<Rightarrow> QUrl" where
  "Threaded_requestUrl w = T_m_url w"

text \<open>Both sends post their command and return -1.\<close>

definition Threaded_sendTextMessage :: "QString \<Rightarrow> QWebSocketThreaded \<Rightarrow> int \<times> QWebSocketThreaded" where
  "Threaded_sendTextMessage message w = (- 1, Threaded_post (sendTextMessageCommand message) w)"

definition Threaded_sendBinaryMessage :: "QByteArray \<Rightarrow> QWebSocketThreaded \<Rightarrow> int \<times> QWebSocketThreaded" where
  "Threaded_sendBinaryMessage data w = (- 1, Threaded_post (sendBinaryMessageCommand data) w)"

section \<open>The QML element: src/qmlwebsockets_threaded/qqmlwebsocketthreaded.cpp\<close>

text \<open>The enumeration \<^verbatim>\<open>Status\<close>, as the documentation of the property lists it.\<close>

datatype Status = Connecting | Open | Closing | Closed | Error

datatype QmlSignal =
    statusChanged Status
  | errorStringChanged QString
  | urlChanged
  | activeChanged bool
  | textMessageReceived QString
  | binaryMessageReceived QByteArray

text \<open>
  \<^verbatim>\<open>m_webSocket\<close> is a \<^verbatim>\<open>QScopedPointer\<close>, \<open>None\<close> when it holds no object;
  \<^verbatim>\<open>emitted\<close> lists the signals the element has emitted, oldest first.
\<close>

record QQmlWebSocketThreaded =
  m_webSocket :: "QWebSocketThreaded option"
  m_status :: Status
  m_url :: QUrl
  m_isActive :: bool
  m_componentCompleted :: bool
  m_errorString :: QString
  emitted :: "QmlSignal list"

text \<open>Calling a member through a \<^verbatim>\<open>QScopedPointer\<close> that holds nothing.\<close>

datatype Fault = NullPointerDereference

text \<open>\<^verbatim>\<open>tr()\<close> with no translation installed returns its source text.\<close>

definition tr :: "QString \<Rightarrow> QString" where
  "tr sourceText = sourceText"

definition QQmlWebSocketThreaded_new :: QQmlWebSocketThreaded where
  "QQmlWebSocketThreaded_new =
     \<lparr> m_webSocket = None,
       m_status = Closed,
       m_url = QUrl_default,
       m_isActive = False,
       m_componentCompleted = True,
       m_errorString = '''',
       emitted = [] \<rparr>"

definition status :: "QQmlWebSocketThreaded \<Rightarrow> Status" where
  "status q = m_status q"

definition errorString :: "QQmlWebSocketThreaded \<Rightarrow> QString" where
  "errorString q = m_errorString q"

definition url :: "QQmlWebSocketThreaded \<Rightarrow> QUrl" where
  "url q = m_url q"

definition isActive :: "QQmlWebSocketThreaded \<Rightarrow> bool" where
  "isActive q = m_isActive q"

definition setErrorString :: "QString \<Rightarrow> QQmlWebSocketThreaded \<Rightarrow> QQmlWebSocketThreaded" where
  "setErrorString errorString' q =
     (if m_errorString q = errorString' then q
      else q\<lparr> m_errorString := errorString',
              emitted := emitted q @ [errorStringChanged errorString'] \<rparr>)"

text \<open>\<^verbatim>\<open>setErrorString()\<close> inside \<^verbatim>\<open>setStatus\<close> passes the default argument, an empty string.\<close>

definition setStatus :: "Status \<Rightarrow> QQmlWebSocketThreaded \<Rightarrow> QQmlWebSocketThreaded" where
  "setStatus status' q =
     (if m_status q = status' then q
      else (let q1 = q\<lparr> m_status := status' \<rparr>;
                q2 = (if status' \<noteq> Error then setErrorString '''' q1 else q1)
            in q2\<lparr> emitted := emitted q2 @ [statusChanged (m_status q2)] \<rparr>))"

text \<open>
  The result of a send is the returned number and the element afterwards, or the fault of
  calling through an empty \<^verbatim>\<open>m_webSocket\<close>.
\<close>

definition sendTextMessage ::
  "QString \<Rightarrow> QQmlWebSocketThreaded \<Rightarrow> Fault + (int \<times> QQmlWebSocketThreaded)" where
  "sendTextMessage message q =
     (if m_status q \<noteq> Open then
        Inr (0, setStatus Error
                  (setErrorString (tr ''Messages can only be sent when the socket is open.'') q))
      else (case m_webSocket q of
              None \<Rightarrow> Inl NullPointerDereference
            | Some w \<Rightarrow>
                (let (n, w') = Threaded_sendTextMessage message w
                 in Inr (n, q\<lparr> m_webSocket := Some w' \<rparr>))))"

definition sendBinaryMessage ::
  "QByteArray \<Rightarrow> QQmlWebSocketThreaded \<Rightarrow> Fault + (int \<times> QQmlWebSocketThreaded)" where
  "sendBinaryMessage message q =
     (if m_status q \<noteq> Open then
        Inr (0, setStatus Error
                  (setErrorString (tr ''Messages can only be sent when the socket is open.'') q))
      else (case m_webSocket q of
              None \<Rightarrow> Inl NullPointerDereference
            | Some w \<Rightarrow>
                (let (n, w') = Threaded_sendBinaryMessage message w
                 in Inr (n, q\<lparr> m_webSocket := Some w' \<rparr>))))"

definition qml_open :: "QQmlWebSocketThreaded \<Rightarrow> QQmlWebSocketThreaded" where
  "qml_open q =
     (if m_componentCompleted q \<and> m_isActive q \<and> url_isValid (m_url q) then
        (case m_webSocket q of
           Some w \<Rightarrow> q\<lparr> m_webSocket := Some (Threaded_open (m_url q) w) \<rparr>
         | None \<Rightarrow> q)
      else q)"

definition qml_close :: "QQmlWebSocketThreaded \<Rightarrow> QQmlWebSocketThreaded" where
  "qml_close q =
     (if m_componentCompleted q then
        (case m_webSocket q of
           Some w \<Rightarrow> q\<lparr> m_webSocket := Some (Threaded_close CloseCodeNormal '''' w) \<rparr>
         | None \<Rightarrow> q)
      else q)"

definition setUrl :: "QUrl \<Rightarrow> QQmlWebSocketThreaded \<Rightarrow> QQmlWebSocketThreaded" where
  "setUrl url' q =
     (if m_url q = url' then q
      else (let q1 = (case m_webSocket q of
                        Some w \<Rightarrow>
                          (if m_status q = Open
                           then q\<lparr> m_webSocket := Some (Threaded_close CloseCodeNormal '''' w) \<rparr>
                           else q)
                      | None \<Rightarrow> q);
                q2 = q1\<lparr> m_url := url', emitted := emitted q1 @ [urlChanged] \<rparr>
            in qml_open q2))"

definition classBegin :: "QQmlWebSocketThreaded \<Rightarrow> QQmlWebSocketThreaded" where
  "classBegin q =
     q\<lparr> m_componentCompleted := False,
        m_errorString := tr ''QQmlWebSocketThreaded is not ready.'',
        m_status := Closed \<rparr>"

text \<open>
  \<^verbatim>\<open>setSocket\<close> replaces the held object and, when there is one, connects its signals
  to the element: \<^verbatim>\<open>error\<close> to \<^verbatim>\<open>onError\<close>, \<^verbatim>\<open>stateChanged\<close> to \<^verbatim>\<open>onStateChanged\<close>.
  The connections are the functions \<open>relay_error\<close> and \<open>relay_stateChanged\<close> below.
\<close>

definition setSocket :: "QWebSocketThreaded option \<Rightarrow> QQmlWebSocketThreaded \<Rightarrow> QQmlWebSocketThreaded" where
  "setSocket socket q = q\<lparr> m_webSocket := socket \<rparr>"

text \<open>\<open>uninitialised\<close> is the first value of \<^verbatim>\<open>m_state\<close> in the new \<^verbatim>\<open>QWebSocketThreaded\<close>.\<close>

definition componentComplete :: "SocketState \<Rightarrow> QQmlWebSocketThreaded \<Rightarrow> QQmlWebSocketThreaded" where
  "componentComplete uninitialised q =
     qml_open ((setSocket (Some (QWebSocketThreaded_new uninitialised)) q)\<lparr> m_componentCompleted := True \<rparr>)"

definition onError :: "SocketError \<Rightarrow> QQmlWebSocketThreaded \<Rightarrow> Fault + QQmlWebSocketThreaded" where
  "onError err q =
     (case m_webSocket q of
        None \<Rightarrow> Inl NullPointerDereference
      | Some w \<Rightarrow> Inr (setStatus Error (setErrorString (Threaded_errorString w) q)))"

definition onStateChanged :: "SocketState \<Rightarrow> QQmlWebSocketThreaded \<Rightarrow> QQmlWebSocketThreaded" where
  "onStateChanged state q =
     (case state of
        ConnectingState \<Rightarrow> setStatus Connecting q
      | BoundState \<Rightarrow> setStatus Connecting q
      | HostLookupState \<Rightarrow> setStatus Connecting q
      | UnconnectedState \<Rightarrow> setStatus Closed q
      | ConnectedState \<Rightarrow> setStatus Open q
      | ClosingState \<Rightarrow> setStatus Closing q
      | ListeningState \<Rightarrow> setStatus Connecting q)"

text \<open>The second constructor wraps an existing socket.\<close>

definition QQmlWebSocketThreaded_from :: "QWebSocketThreaded \<Rightarrow> QQmlWebSocketThreaded" where
  "QQmlWebSocketThreaded_from socket =
     onStateChanged (Threaded_state socket)
       (setSocket (Some socket)
          \<lparr> m_webSocket = None,
            m_status = Closed,
            m_url = Threaded_requestUrl socket,
            m_isActive = True,
            m_componentCompleted = True,
            m_errorString = Threaded_errorString socket,
            emitted = [] \<rparr>)"

definition setActive :: "bool \<Rightarrow> QQmlWebSocketThreaded \<Rightarrow> QQmlWebSocketThreaded" where
  "setActive active q =
     (if m_isActive q = active then q
      else (let q1 = q\<lparr> m_isActive := active, emitted := emitted q @ [activeChanged active] \<rparr>
            in if \<not> m_componentCompleted q1 then q1
               else if m_isActive q1 then qml_open q1 else qml_close q1))"

subsection \<open>Events of the protocol engine, through the two layers of connections\<close>

text \<open>
  The engine's \<^verbatim>\<open>stateChanged\<close> runs \<^verbatim>\<open>stateChangedHandler\<close>, whose signal runs
  \<^verbatim>\<open>onStateChanged\<close>; likewise \<^verbatim>\<open>error\<close> runs \<^verbatim>\<open>errorHandler\<close> and then \<^verbatim>\<open>onError\<close>.
  An element that holds no socket has no engine and receives nothing.
\<close>

definition relay_stateChanged :: "QQmlWebSocketThreaded \<Rightarrow> SocketState \<Rightarrow> QQmlWebSocketThreaded" where
  "relay_stateChanged q state =
     (case m_webSocket q of
        None \<Rightarrow> q
      | Some w \<Rightarrow> onStateChanged state (q\<lparr> m_webSocket := Some (stateChangedHandler state w) \<rparr>))"

definition relay_error :: "QQmlWebSocketThreaded \<Rightarrow> SocketError \<Rightarrow> Fault + QQmlWebSocketThreaded" where
  "relay_error q err =
     (case m_webSocket q of
        None \<Rightarrow> Inr q
      | Some w \<Rightarrow> onError err (q\<lparr> m_webSocket := Some (errorHandler err w) \<rparr>))"

definition relay_stateChanges :: "SocketState list \<Rightarrow> QQmlWebSocketThreaded \<Rightarrow> QQmlWebSocketThreaded" where
  "relay_stateChanges states q = foldl relay_stateChanged q states"

text \<open>The status notifications among the emitted signals, in order.\<close>

fun statusNotifications :: "QmlSignal list \<Rightarrow> Status list" where
  "statusNotifications [] = []"
| "statusNotifications (statusChanged st # sigs) = st # statusNotifications sigs"
| "statusNotifications (_ # sigs) = statusNotifications sigs"

text \<open>The status each socket state is shown as: the branches of \<^verbatim>\<open>onStateChanged\<close>.\<close>

fun statusOfState :: "SocketState \<Rightarrow> Status" where
  "statusOfState ConnectingState = Connecting"
| "statusOfState BoundState = Connecting"
| "statusOfState HostLookupState = Connecting"
| "statusOfState UnconnectedState = Closed"
| "statusOfState ConnectedState = Open"
| "statusOfState ClosingState = Closing"
| "statusOfState ListeningState = Connecting"

section \<open>Concrete inputs\<close>

definition sampleRequest :: HandshakeRequest where
  "sampleRequest =
     \<lparr> rq_wellFormed = True,
       rq_method = ''GET'',
       rq_upgradeWebsocket = True,
       rq_connectionUpgrade = True,
       rq_key = Some ''dGhlIHNhbXBsZSBub25jZQ=='',
       rq_versions = [13],
       rq_origin = ''http://example.com'',
       rq_protocols = [],
       rq_extensions = [] \<rparr>"

definition sampleSocket :: "nat \<Rightarrow> HandshakeResponse QTcpSocket" where
  "sampleSocket port = \<lparr> peerPort = port, sock_log = [] \<rparr>"

definition sampleServer :: "int \<Rightarrow> QWebSocketServer" where
  "sampleServer n = setMaxPendingConnections n (QWebSocketServer_new ''echo'')"

definition sampleUpgrade :: "nat \<Rightarrow> ServerEvent" where
  "sampleUpgrade port = HandshakeReceived (Some (sampleSocket port)) sampleRequest"

definition sampleElement :: QQmlWebSocketThreaded where
  "sampleElement = componentComplete UnconnectedState (classBegin QQmlWebSocketThreaded_new)"

text \<open>
  A server that allows one pending connection and has completed one upgrade: its queue
  is full.
\<close>

definition fullServer :: QWebSocketServer where
  "fullServer = serverRun HandshakeResponse_new upgradeFrom_wrap [sampleUpgrade 50001] (sampleServer 1)"

definition keylessRequest :: HandshakeRequest where
  "keylessRequest = sampleRequest\<lparr> rq_key := None \<rparr>"

definition acceptedResponse :: HandshakeResponse where
  "acceptedResponse =
     \<lparr> isValid = True, canUpgrade = True, rs_status = 101,
       rs_key = Some ''dGhlIHNhbXBsZSBub25jZQ=='', rs_protocols = [], rs_extensions = [] \<rparr>"

definition rejectedResponse :: HandshakeResponse where
  "rejectedResponse =
     \<lparr> isValid = True, canUpgrade = False, rs_status = 400,
       rs_key = None, rs_protocols = [], rs_extensions = [] \<rparr>"

definition upgradedSocket :: "nat \<Rightarrow> HandshakeResponse QTcpSocket" where
  "upgradedSocket port =
     \<lparr> peerPort = port,
       sock_log = [SockRead, SockDisconnectReadyRead, SockWrite acceptedResponse, SockFlush] \<rparr>"

definition upgradedConnection :: "nat \<Rightarrow> HandshakeResponse QWebSocket" where
  "upgradedConnection port = \<lparr> ws_socket = upgradedSocket port, ws_closeCalls = [] \<rparr>"

text \<open>The invariant of the pending queue.\<close>

definition queueBounded :: "QWebSocketServer \<Rightarrow> bool" where
  "queueBounded s = (int (length (m_pendingConnections s)) \<le> maxPendingConnections s)"

section \<open>The pending connection queue\<close>

lemma maxPending_addPending [simp]:
  "maxPendingConnections (addPendingConnection w s) = maxPendingConnections s"
  by (simp add: addPendingConnection_def maxPendingConnections_def)

lemma maxPending_next [simp]:
  "maxPendingConnections (snd (nextPendingConnection s)) = maxPendingConnections s"
  by (simp add: nextPendingConnection_def maxPendingConnections_def split: list.splits)

lemma maxPending_handshake [simp]:
  "maxPendingConnections (fst (handshakeReceived mk up sender request s)) = maxPendingConnections s"
  by (simp add: handshakeReceived_def Let_def addPendingConnection_def maxPendingConnections_def
           split: option.splits)

lemma maxPending_step [simp]:
  "maxPendingConnections (serverStep mk up s ev) = maxPendingConnections s"
  by (cases ev) simp_all

lemma maxPending_run [simp]:
  "maxPendingConnections (serverRun mk up evs s) = maxPendingConnections s"
  unfolding serverRun_def
  by (induction evs arbitrary: s) simp_all

lemma maxPending_new: "maxPendingConnections (QWebSocketServer_new name) = 30"
  by (simp add: QWebSocketServer_new_def maxPendingConnections_def)

lemma bounded_addPending:
  "queueBounded s \<Longrightarrow> queueBounded (addPendingConnection w s)"
  by (simp add: queueBounded_def addPendingConnection_def maxPendingConnections_def)

lemma bounded_next:
  "queueBounded s \<Longrightarrow> queueBounded (snd (nextPendingConnection s))"
  by (auto simp add: queueBounded_def nextPendingConnection_def maxPendingConnections_def
        split: list.splits)

lemma bounded_handshake:
  "queueBounded s \<Longrightarrow> queueBounded (fst (handshakeReceived mk up sender request s))"
  by (simp add: queueBounded_def handshakeReceived_def Let_def addPendingConnection_def
        maxPendingConnections_def split: option.splits)

lemma bounded_step: "queueBounded s \<Longrightarrow> queueBounded (serverStep mk up s ev)"
  by (cases ev) (simp_all add: bounded_addPending bounded_next bounded_handshake)

lemma bounded_run: "queueBounded s \<Longrightarrow> queueBounded (serverRun mk up evs s)"
  unfolding serverRun_def
  by (induction evs arbitrary: s) (simp_all add: bounded_step)

lemma bounded_new: "queueBounded (QWebSocketServer_new name)"
  by (simp add: queueBounded_def QWebSocketServer_new_def maxPendingConnections_def)

lemma acceptN_all:
  "m_pendingConnections s = q \<Longrightarrow> acceptN (length q) s = map Some q"
  by (induction q arbitrary: s) (simp_all add: nextPendingConnection_def)

subsection \<open>The concrete servers, evaluated\<close>

lemma sock_do_sock_do [simp]: "sock_do bs (sock_do as sock) = sock_do (as @ bs) sock"
  by (simp add: sock_do_def)

lemma acceptedResponse_flags [simp]:
  "isValid acceptedResponse" "canUpgrade acceptedResponse" "rs_status acceptedResponse = 101"
  by (simp_all add: acceptedResponse_def)

lemma sample_response [simp]:
  "handshakeResponseOf HandshakeResponse_new sampleRequest s = acceptedResponse"
  by (simp add: handshakeResponseOf_def HandshakeResponse_new_def sampleRequest_def
        acceptedResponse_def isOriginAllowed_def getOrigin_def supportedVersions_def
        supportedProtocols_def supportedExtensions_def)

lemma keyless_response [simp]:
  "handshakeResponseOf HandshakeResponse_new keylessRequest s = rejectedResponse"
  by (simp add: handshakeResponseOf_def HandshakeResponse_new_def sampleRequest_def
        keylessRequest_def rejectedResponse_def)

lemma sample_upgrade [simp]:
  "upgradeFrom_wrap (sock_do [SockRead, SockDisconnectReadyRead, SockWrite acceptedResponse, SockFlush]
      (sampleSocket port)) request response = Some (upgradedConnection port)"
  by (simp add: upgradeFrom_wrap_def upgradedConnection_def upgradedSocket_def sock_do_def
        sampleSocket_def)

lemma fullServer_eq:
  "fullServer =
     \<lparr> m_pTcpServer = \<lparr> tcp_maxPendingConnections = 1 \<rparr>,
       m_serverName = ''echo'',
       m_pendingConnections = [upgradedConnection 50001],
       ws_children = [upgradedConnection 50001],
       newConnection_count = 1 \<rparr>"
  by (simp add: fullServer_def serverRun_def sampleUpgrade_def handshakeReceived_def Let_def
        addPendingConnection_def maxPendingConnections_def
        sampleServer_def setMaxPendingConnections_def QWebSocketServer_new_def)

text \<open>
  Claim C2. Over every sequence of handshakes, direct insertions and accept calls, a
  pending queue that is within the configured maximum stays within it, and the maximum
  itself is not changed by them; a server as constructed (maximum 30, empty queue)
  therefore never holds more than 30; and at the maximum \<^verbatim>\<open>addPendingConnection\<close>
  leaves the server as it is, so the connection is not enqueued.
\<close>

theorem pending_queue_never_exceeds_maximum:
  "(int (length (m_pendingConnections s)) \<le> maxPendingConnections s \<longrightarrow>
      int (length (m_pendingConnections (serverRun mk up evs s))) \<le> maxPendingConnections s
      \<and> maxPendingConnections (serverRun mk up evs s) = maxPendingConnections s)
   \<and> length (m_pendingConnections (serverRun mk up evs (QWebSocketServer_new serverName))) \<le> 30
   \<and> (maxPendingConnections s \<le> int (length (m_pendingConnections s)) \<longrightarrow>
        addPendingConnection pWebSocket s = s)"
proof (intro conjI impI)
  assume "int (length (m_pendingConnections s)) \<le> maxPendingConnections s"
  then have "queueBounded s" by (simp add: queueBounded_def)
  then have "queueBounded (serverRun mk up evs s)" by (rule bounded_run)
  then show "int (length (m_pendingConnections (serverRun mk up evs s))) \<le> maxPendingConnections s"
    by (simp add: queueBounded_def)
next
  show "maxPendingConnections (serverRun mk up evs s) = maxPendingConnections s" by simp
next
  have "queueBounded (serverRun mk up evs (QWebSocketServer_new serverName))"
    by (rule bounded_run [OF bounded_new])
  then show "length (m_pendingConnections (serverRun mk up evs (QWebSocketServer_new serverName))) \<le> 30"
    by (simp add: queueBounded_def maxPending_new)
next
  assume "maxPendingConnections s \<le> int (length (m_pendingConnections s))"
  then show "addPendingConnection pWebSocket s = s"
    by (simp add: addPendingConnection_def)
qed

text \<open>
  With a maximum of 2, three completed upgrades leave at most 2 connections pending; and
  the full server refuses one more.
\<close>

theorem pending_queue_never_exceeds_maximum_witness:
  "int (length (m_pendingConnections (sampleServer 2))) \<le> maxPendingConnections (sampleServer 2)
   \<and> int (length (m_pendingConnections
        (serverRun HandshakeResponse_new upgradeFrom_wrap
           [sampleUpgrade 50001, sampleUpgrade 50002, sampleUpgrade 50003] (sampleServer 2)))) \<le> 2
   \<and> maxPendingConnections fullServer \<le> int (length (m_pendingConnections fullServer))
   \<and> addPendingConnection (upgradedConnection 50002) fullServer = fullServer"
proof -
  have m: "maxPendingConnections (sampleServer 2) = 2"
    by (simp add: sampleServer_def setMaxPendingConnections_def maxPendingConnections_def)
  have h: "int (length (m_pendingConnections (sampleServer 2))) \<le> maxPendingConnections (sampleServer 2)"
    by (simp add: m) (simp add: sampleServer_def setMaxPendingConnections_def QWebSocketServer_new_def)
  have f: "maxPendingConnections fullServer \<le> int (length (m_pendingConnections fullServer))"
    by (simp add: fullServer_eq maxPendingConnections_def)
  from pending_queue_never_exceeds_maximum
      [where s = "sampleServer 2" and mk = HandshakeResponse_new and up = upgradeFrom_wrap
        and evs = "[sampleUpgrade 50001, sampleUpgrade 50002, sampleUpgrade 50003]"] h m
  have 1: "int (length (m_pendingConnections
        (serverRun HandshakeResponse_new upgradeFrom_wrap
           [sampleUpgrade 50001, sampleUpgrade 50002, sampleUpgrade 50003] (sampleServer 2)))) \<le> 2"
    by simp
  from pending_queue_never_exceeds_maximum
      [where s = fullServer and pWebSocket = "upgradedConnection 50002"] f
  have 2: "addPendingConnection (upgradedConnection 50002) fullServer = fullServer"
    by blast
  from h 1 f 2 show ?thesis by simp
qed

text \<open>
  Claim C10. On an empty queue \<^verbatim>\<open>nextPendingConnection\<close> returns the null pointer and
  leaves the server unchanged, and \<^verbatim>\<open>hasPendingConnections\<close> is false; on a non-empty
  queue it returns the front element and removes it. Below the maximum
  \<^verbatim>\<open>addPendingConnection\<close> appends at the back, so accepting as many times as there are
  pending connections returns them in the order they were enqueued.
\<close>

theorem nextPendingConnection_fifo:
  "(m_pendingConnections s = [] \<longrightarrow>
      nextPendingConnection s = (None, s) \<and> \<not> hasPendingConnections s)
   \<and> (m_pendingConnections s = pWebSocket # rest \<longrightarrow>
        nextPendingConnection s = (Some pWebSocket, s\<lparr> m_pendingConnections := rest \<rparr>)
        \<and> hasPendingConnections s)
   \<and> (int (length (m_pendingConnections s)) < maxPendingConnections s \<longrightarrow>
        m_pendingConnections (addPendingConnection w s) = m_pendingConnections s @ [w])
   \<and> acceptN (length (m_pendingConnections s)) s = map Some (m_pendingConnections s)"
  by (simp add: nextPendingConnection_def hasPendingConnections_def addPendingConnection_def
        acceptN_all)

theorem nextPendingConnection_fifo_witness:
  "m_pendingConnections (sampleServer 1) = []
   \<and> nextPendingConnection (sampleServer 1) = (None, sampleServer 1)
   \<and> m_pendingConnections fullServer = [upgradedConnection 50001]
   \<and> nextPendingConnection fullServer
       = (Some (upgradedConnection 50001), fullServer\<lparr> m_pendingConnections := [] \<rparr>)
   \<and> acceptN 1 fullServer = [Some (upgradedConnection 50001)]"
proof -
  have e: "m_pendingConnections (sampleServer 1) = []"
    by (simp add: sampleServer_def setMaxPendingConnections_def QWebSocketServer_new_def)
  have f: "m_pendingConnections fullServer = [upgradedConnection 50001]"
    by (simp add: fullServer_eq)
  from nextPendingConnection_fifo [of "sampleServer 1"] e
  have 1: "nextPendingConnection (sampleServer 1) = (None, sampleServer 1)" by blast
  from nextPendingConnection_fifo [of fullServer "upgradedConnection 50001" "[]"] f
  have 2: "nextPendingConnection fullServer
       = (Some (upgradedConnection 50001), fullServer\<lparr> m_pendingConnections := [] \<rparr>)"
    and 3: "acceptN 1 fullServer = [Some (upgradedConnection 50001)]" by simp_all
  from e f 1 2 3 show ?thesis by simp
qed

text \<open>
  Claim C9. \<^verbatim>\<open>isOriginAllowed\<close> answers true for every origin, the empty string
  included, whatever the state of the server.
\<close>

theorem isOriginAllowed_accepts_every_origin:
  "isOriginAllowed s origin \<and> isOriginAllowed s ''''"
  by (simp add: isOriginAllowed_def)

section \<open>Handshakes\<close>

lemma handshake_rejected:
  assumes "\<not> (isValid (handshakeResponseOf mk request s) \<and> canUpgrade (handshakeResponseOf mk request s))"
  shows "handshakeReceived mk up (Some sock) request s =
           (s, Some (sock_do ([SockRead, SockDisconnectReadyRead]
                       @ (if isValid (handshakeResponseOf mk request s)
                          then [SockWrite (handshakeResponseOf mk request s), SockFlush] else [])
                       @ [SockClose]) sock))"
  using assms by (auto simp add: handshakeReceived_def Let_def)

lemma handshake_upgrade_failed:
  assumes "isValid (handshakeResponseOf mk request s)" "canUpgrade (handshakeResponseOf mk request s)"
    and "up (sock_do [SockRead, SockDisconnectReadyRead,
                      SockWrite (handshakeResponseOf mk request s), SockFlush] sock)
            request (handshakeResponseOf mk request s) = None"
  shows "handshakeReceived mk up (Some sock) request s =
           (s, Some (sock_do [SockRead, SockDisconnectReadyRead,
                       SockWrite (handshakeResponseOf mk request s), SockFlush, SockClose] sock))"
  using assms by (simp add: handshakeReceived_def Let_def)

lemma spec_response_rejects:
  "isValid (handshakeResponseOf HandshakeResponse_new request s)"
  "\<not> canUpgrade (handshakeResponseOf HandshakeResponse_new request s) \<Longrightarrow>
     rs_status (handshakeResponseOf HandshakeResponse_new request s) = 400"
  "rq_key request = None \<Longrightarrow> \<not> canUpgrade (handshakeResponseOf HandshakeResponse_new request s)"
  by (simp_all add: handshakeResponseOf_def HandshakeResponse_new_def Let_def)

text \<open>
  Claim C7. When the response to a request is not valid or cannot upgrade, whatever the
  response constructor and \<^verbatim>\<open>upgradeFrom\<close> are, \<^verbatim>\<open>handshakeReceived\<close> leaves the server
  as it was (nothing is queued, no connection is created, \<^verbatim>\<open>newConnection\<close> is not
  emitted) and the sender's stream is read, disconnected from the slot, written the
  response and flushed if the response is valid, and closed last. The same holds when
  the response can upgrade and \<^verbatim>\<open>upgradeFrom\<close> returns null. With the response
  constructor of the spec, a response that cannot upgrade is valid and has a status other
  than 101, so it is written and flushed before the close; and a request without
  \<^verbatim>\<open>Sec-WebSocket-Key\<close> cannot upgrade.
\<close>

theorem rejected_handshake_closes_stream:
  "(\<not> (isValid (handshakeResponseOf mk request s) \<and> canUpgrade (handshakeResponseOf mk request s)) \<longrightarrow>
      handshakeReceived mk up (Some sock) request s =
        (s, Some (sock_do ([SockRead, SockDisconnectReadyRead]
                    @ (if isValid (handshakeResponseOf mk request s)
                       then [SockWrite (handshakeResponseOf mk request s), SockFlush] else [])
                    @ [SockClose]) sock)))
   \<and> (isValid (handshakeResponseOf mk request s) \<and> canUpgrade (handshakeResponseOf mk request s)
        \<and> up (sock_do [SockRead, SockDisconnectReadyRead,
                        SockWrite (handshakeResponseOf mk request s), SockFlush] sock)
              request (handshakeResponseOf mk request s) = None \<longrightarrow>
        handshakeReceived mk up (Some sock) request s =
          (s, Some (sock_do [SockRead, SockDisconnectReadyRead,
                      SockWrite (handshakeResponseOf mk request s), SockFlush, SockClose] sock)))
   \<and> (\<not> canUpgrade (handshakeResponseOf HandshakeResponse_new request s) \<longrightarrow>
        rs_status (handshakeResponseOf HandshakeResponse_new request s) \<noteq> 101
        \<and> handshakeReceived HandshakeResponse_new up (Some sock) request s =
            (s, Some (sock_do [SockRead, SockDisconnectReadyRead,
                        SockWrite (handshakeResponseOf HandshakeResponse_new request s),
                        SockFlush, SockClose] sock)))
   \<and> (rq_key request = None \<longrightarrow>
        \<not> canUpgrade (handshakeResponseOf HandshakeResponse_new request s))"
proof (intro conjI impI)
  assume "\<not> (isValid (handshakeResponseOf mk request s) \<and> canUpgrade (handshakeResponseOf mk request s))"
  then show "handshakeReceived mk up (Some sock) request s =
        (s, Some (sock_do ([SockRead, SockDisconnectReadyRead]
                    @ (if isValid (handshakeResponseOf mk request s)
                       then [SockWrite (handshakeResponseOf mk request s), SockFlush] else [])
                    @ [SockClose]) sock))"
    by (rule handshake_rejected)
next
  assume "isValid (handshakeResponseOf mk request s) \<and> canUpgrade (handshakeResponseOf mk request s)
        \<and> up (sock_do [SockRead, SockDisconnectReadyRead,
                        SockWrite (handshakeResponseOf mk request s), SockFlush] sock)
              request (handshakeResponseOf mk request s) = None"
  then show "handshakeReceived mk up (Some sock) request s =
          (s, Some (sock_do [SockRead, SockDisconnectReadyRead,
                      SockWrite (handshakeResponseOf mk request s), SockFlush, SockClose] sock))"
    by (simp add: handshake_upgrade_failed)
next
  assume "\<not> canUpgrade (handshakeResponseOf HandshakeResponse_new request s)"
  then show "rs_status (handshakeResponseOf HandshakeResponse_new request s) \<noteq> 101"
    by (simp add: spec_response_rejects(2))
next
  assume no: "\<not> canUpgrade (handshakeResponseOf HandshakeResponse_new request s)"
  then have "\<not> (isValid (handshakeResponseOf HandshakeResponse_new request s)
               \<and> canUpgrade (handshakeResponseOf HandshakeResponse_new request s))"
    by simp
  from handshake_rejected [OF this]
  show "handshakeReceived HandshakeResponse_new up (Some sock) request s =
            (s, Some (sock_do [SockRead, SockDisconnectReadyRead,
                        SockWrite (handshakeResponseOf HandshakeResponse_new request s),
                        SockFlush, SockClose] sock))"
    by (simp add: spec_response_rejects(1))
next
  assume "rq_key request = None"
  then show "\<not> canUpgrade (handshakeResponseOf HandshakeResponse_new request s)"
    by (rule spec_response_rejects(3))
qed

text \<open>
  A request that lacks only the key, sent to a server with the default maximum: the
  server is unchanged, the stream receives the 400 response and is then closed.
\<close>

theorem rejected_handshake_closes_stream_witness:
  "rq_key keylessRequest = None
   \<and> handshakeReceived HandshakeResponse_new upgradeFrom_wrap (Some (sampleSocket 50003))
        keylessRequest (sampleServer 30)
      = (sampleServer 30,
         Some \<lparr> peerPort = 50003,
                sock_log = [SockRead, SockDisconnectReadyRead, SockWrite rejectedResponse,
                            SockFlush, SockClose] \<rparr>)
   \<and> rs_status rejectedResponse = 400"
proof -
  have k: "rq_key keylessRequest = None" by (simp add: keylessRequest_def)
  have "\<not> canUpgrade (handshakeResponseOf HandshakeResponse_new keylessRequest (sampleServer 30))"
    using rejected_handshake_closes_stream [of HandshakeResponse_new keylessRequest "sampleServer 30"] k
    by blast
  with rejected_handshake_closes_stream
    [of HandshakeResponse_new keylessRequest "sampleServer 30" upgradeFrom_wrap "sampleSocket 50003"]
  show ?thesis using k
    by (simp add: sock_do_def sampleSocket_def rejectedResponse_def)
qed

text \<open>
  Claim C3, evaluated. On the full server a second handshake succeeds:
  \<^verbatim>\<open>handshakeReceived\<close> answers with the 101 response and upgrades the stream, but
  \<^verbatim>\<open>addPendingConnection\<close> does not enqueue the connection and nothing closes it. The
  queue still holds only the first connection, \<^verbatim>\<open>newConnection\<close> has been emitted a
  second time, neither child of the server has received a close call (so none with
  \<^verbatim>\<open>CC_GOING_AWAY\<close>), the log of the second stream ends with the flush and not with a
  close, and the destructor's loop closes the queued connection only.
\<close>

theorem full_queue_upgrade_leaves_connection_open:
  "maxPendingConnections fullServer \<le> int (length (m_pendingConnections fullServer))
   \<and> canUpgrade (handshakeResponseOf HandshakeResponse_new sampleRequest fullServer)
   \<and> m_pendingConnections
        (fst (handshakeReceived HandshakeResponse_new upgradeFrom_wrap (Some (sampleSocket 50002))
                sampleRequest fullServer))
      = [upgradedConnection 50001]
   \<and> newConnection_count
        (fst (handshakeReceived HandshakeResponse_new upgradeFrom_wrap (Some (sampleSocket 50002))
                sampleRequest fullServer))
      = 2
   \<and> ws_children
        (fst (handshakeReceived HandshakeResponse_new upgradeFrom_wrap (Some (sampleSocket 50002))
                sampleRequest fullServer))
      = [upgradedConnection 50001, upgradedConnection 50002]
   \<and> map ws_closeCalls (ws_children
        (fst (handshakeReceived HandshakeResponse_new upgradeFrom_wrap (Some (sampleSocket 50002))
                sampleRequest fullServer)))
      = [[], []]
   \<and> map_option sock_log
        (snd (handshakeReceived HandshakeResponse_new upgradeFrom_wrap (Some (sampleSocket 50002))
                sampleRequest fullServer))
      = Some [SockRead, SockDisconnectReadyRead, SockWrite acceptedResponse, SockFlush]
   \<and> map (\<lambda>c. (peerPort (ws_socket c), ws_closeCalls c))
        (QWebSocketServer_destroy
          (fst (handshakeReceived HandshakeResponse_new upgradeFrom_wrap (Some (sampleSocket 50002))
                  sampleRequest fullServer)))
      = [(50001, [(CC_GOING_AWAY, ''Server closed.'')])]"
  by (simp add: fullServer_eq handshakeReceived_def Let_def addPendingConnection_def
        maxPendingConnections_def upgradedConnection_def upgradedSocket_def
        sock_do_def sampleSocket_def upgradeFrom_wrap_def QWebSocketServer_destroy_def)

section \<open>Status and error description of the QML element\<close>

lemma setErrorString_fields [simp]:
  "m_errorString (setErrorString e q) = e"
  "m_status (setErrorString e q) = m_status q"
  "m_webSocket (setErrorString e q) = m_webSocket q"
  by (simp_all add: setErrorString_def)

lemma setStatus_status [simp]: "m_status (setStatus st q) = st"
  by (simp add: setStatus_def Let_def)

lemma setStatus_webSocket [simp]: "m_webSocket (setStatus st q) = m_webSocket q"
  by (simp add: setStatus_def Let_def)

lemma setStatus_Error_errorString [simp]:
  "m_errorString (setStatus Error q) = m_errorString q"
  by (simp add: setStatus_def Let_def)

lemma setStatus_same: "m_status q = st \<Longrightarrow> setStatus st q = q"
  by (simp add: setStatus_def)

lemma setStatus_clears:
  "st \<noteq> Error \<Longrightarrow> m_status q \<noteq> st \<Longrightarrow> m_errorString (setStatus st q) = ''''"
  by (simp add: setStatus_def Let_def)

lemma sampleElement_eq:
  "sampleElement =
     \<lparr> m_webSocket = Some (QWebSocketThreaded_new UnconnectedState),
       m_status = Closed,
       m_url = QUrl_default,
       m_isActive = False,
       m_componentCompleted = True,
       m_errorString = ''QQmlWebSocketThreaded is not ready.'',
       emitted = [] \<rparr>"
  by (simp add: sampleElement_def componentComplete_def classBegin_def
        QQmlWebSocketThreaded_new_def setSocket_def qml_open_def tr_def)

text \<open>
  Claim C1. When the status is not \<open>Open\<close> (so \<open>Connecting\<close>, \<open>Closing\<close>, \<open>Closed\<close> or
  \<open>Error\<close>), \<^verbatim>\<open>sendTextMessage\<close> and \<^verbatim>\<open>sendBinaryMessage\<close> return 0 at once; afterwards
  the status is \<open>Error\<close>, the error description is "Messages can only be sent when the
  socket is open.", and the held socket, with the commands it has posted to the worker
  thread, is exactly as before: nothing was forwarded.
\<close>

theorem send_when_not_open_fails_fast:
  "m_status q \<noteq> Open \<Longrightarrow>
     (\<exists>q'. sendTextMessage message q = Inr (0, q')
          \<and> sendBinaryMessage data q = Inr (0, q')
          \<and> status q' = Error
          \<and> errorString q' = ''Messages can only be sent when the socket is open.''
          \<and> m_webSocket q' = m_webSocket q)"
  by (simp add: sendTextMessage_def sendBinaryMessage_def status_def errorString_def tr_def)

theorem send_when_not_open_fails_fast_witness:
  "m_status sampleElement \<noteq> Open
   \<and> sendTextMessage ''hello'' sampleElement
       = Inr (0, sampleElement\<lparr> m_status := Error,
                   m_errorString := ''Messages can only be sent when the socket is open.'',
                   emitted := [errorStringChanged ''Messages can only be sent when the socket is open.'',
                               statusChanged Error] \<rparr>)
   \<and> m_webSocket sampleElement = Some (QWebSocketThreaded_new UnconnectedState)"
proof -
  have h: "m_status sampleElement \<noteq> Open" by (simp add: sampleElement_eq)
  from send_when_not_open_fails_fast [OF h, of "''hello''" "''bytes''"] obtain q' where
    q': "sendTextMessage ''hello'' sampleElement = Inr (0, q')"
        "status q' = Error" by blast
  have "sendTextMessage ''hello'' sampleElement
       = Inr (0, sampleElement\<lparr> m_status := Error,
                   m_errorString := ''Messages can only be sent when the socket is open.'',
                   emitted := [errorStringChanged ''Messages can only be sent when the socket is open.'',
                               statusChanged Error] \<rparr>)"
    by (simp add: sampleElement_eq sendTextMessage_def setStatus_def setErrorString_def tr_def Let_def)
  with h q' show ?thesis by (simp add: sampleElement_eq)
qed

text \<open>
  Claim C5. Every status transition into a status other than \<open>Error\<close> clears the error
  description: when \<^verbatim>\<open>setStatus(s)\<close> is called with \<open>s\<close> other than \<open>Error\<close> and
  other than the current status, afterwards the status is \<open>s\<close>, \<^verbatim>\<open>errorString()\<close> is
  the empty string whatever it was before, and \<^verbatim>\<open>statusChanged(s)\<close> is the last signal
  emitted.
\<close>

theorem setStatus_clears_description_on_change:
  "status q \<noteq> st \<Longrightarrow> st \<noteq> Error \<Longrightarrow>
     status (setStatus st q) = st
     \<and> errorString (setStatus st q) = ''''
     \<and> last (emitted (setStatus st q)) = statusChanged st"
  by (simp add: errorString_def status_def setStatus_clears)
     (simp add: setStatus_def Let_def setErrorString_def)

text \<open>
  After \<^verbatim>\<open>classBegin\<close> the status is \<open>Closed\<close> and the description is
  "QQmlWebSocketThreaded is not ready."; the transition to \<open>Open\<close> empties it.
\<close>

theorem setStatus_clears_description_on_change_witness:
  "status (classBegin QQmlWebSocketThreaded_new) \<noteq> Open
   \<and> Open \<noteq> Error
   \<and> errorString (classBegin QQmlWebSocketThreaded_new) = ''QQmlWebSocketThreaded is not ready.''
   \<and> status (setStatus Open (classBegin QQmlWebSocketThreaded_new)) = Open
   \<and> errorString (setStatus Open (classBegin QQmlWebSocketThreaded_new)) = ''''
   \<and> last (emitted (setStatus Open (classBegin QQmlWebSocketThreaded_new))) = statusChanged Open"
proof -
  have h1: "status (classBegin QQmlWebSocketThreaded_new) \<noteq> Open"
    by (simp add: status_def classBegin_def)
  have h2: "Open \<noteq> Error" by simp
  have e: "errorString (classBegin QQmlWebSocketThreaded_new) = ''QQmlWebSocketThreaded is not ready.''"
    by (simp add: errorString_def classBegin_def tr_def)
  from setStatus_clears_description_on_change [OF h1 h2] h1 h2 e
  show ?thesis by blast
qed

text \<open>
  Claim C4, evaluated. \<^verbatim>\<open>QWebSocketThreaded::m_errorString\<close> is never assigned, so the
  description \<^verbatim>\<open>onError\<close> copies from it is empty: an error event of the engine on the
  element built by \<^verbatim>\<open>classBegin\<close> and \<^verbatim>\<open>componentComplete\<close> ends in status \<open>Error\<close>
  with an empty error description.
\<close>

theorem onError_enters_Error_with_empty_description:
  "map_sum id (\<lambda>q. (status q, errorString q)) (relay_error sampleElement 0) = Inr (Error, '''')"
  by (simp add: sampleElement_eq relay_error_def onError_def errorHandler_def Threaded_emit_def
        Threaded_errorString_def QWebSocketThreaded_new_def status_def errorString_def)

text \<open>No member of \<^verbatim>\<open>QWebSocketThreaded\<close> writes \<^verbatim>\<open>m_errorString\<close>: it stays empty.\<close>

lemma Threaded_errorString_never_set:
  "Threaded_errorString (QWebSocketThreaded_new u) = ''''"
  "Threaded_errorString (Threaded_close code reason w) = Threaded_errorString w"
  "Threaded_errorString (Threaded_open u' w) = Threaded_errorString w"
  "Threaded_errorString (connectedHandler w) = Threaded_errorString w"
  "Threaded_errorString (disconnectedHandler w) = Threaded_errorString w"
  "Threaded_errorString (stateChangedHandler state w) = Threaded_errorString w"
  "Threaded_errorString (textMessageReceivedHandler message w) = Threaded_errorString w"
  "Threaded_errorString (binaryMessageReceivedHandler message w) = Threaded_errorString w"
  "Threaded_errorString (errorHandler err w) = Threaded_errorString w"
  "Threaded_errorString (snd (Threaded_sendTextMessage message w)) = Threaded_errorString w"
  "Threaded_errorString (snd (Threaded_sendBinaryMessage message w)) = Threaded_errorString w"
  by (simp_all add: Threaded_errorString_def QWebSocketThreaded_new_def Threaded_close_def
        Threaded_open_def connectedHandler_def disconnectedHandler_def stateChangedHandler_def
        textMessageReceivedHandler_def binaryMessageReceivedHandler_def errorHandler_def
        Threaded_sendTextMessage_def Threaded_sendBinaryMessage_def Threaded_emit_def
        Threaded_post_def)

section \<open>Relaying the engine's state changes\<close>

lemma onStateChanged_setStatus: "onStateChanged state q = setStatus (statusOfState state) q"
  by (cases state) (simp_all add: onStateChanged_def)

lemma statusNotifications_append [simp]:
  "statusNotifications (xs @ ys) = statusNotifications xs @ statusNotifications ys"
  by (induction xs rule: statusNotifications.induct) simp_all

lemma setErrorString_notifications [simp]:
  "statusNotifications (emitted (setErrorString e q)) = statusNotifications (emitted q)"
  by (simp add: setErrorString_def)

lemma setStatus_notifications:
  "statusNotifications (emitted (setStatus st q)) =
     statusNotifications (emitted q) @ (if m_status q = st then [] else [st])"
  by (simp add: setStatus_def Let_def)

lemma relay_stateChanged_Some:
  assumes "m_webSocket q = Some w"
  shows "m_webSocket (relay_stateChanged q state) = Some (stateChangedHandler state w)"
    and "m_status (relay_stateChanged q state) = statusOfState state"
    and "statusNotifications (emitted (relay_stateChanged q state)) =
           statusNotifications (emitted q)
             @ (if m_status q = statusOfState state then [] else [statusOfState state])"
  using assms
  by (simp_all add: relay_stateChanged_def onStateChanged_setStatus setStatus_notifications)

lemma stateChangedHandler_fields [simp]:
  "T_signals (stateChangedHandler state w) = T_signals w @ [T_stateChanged state]"
  "T_m_state (stateChangedHandler state w) = state"
  "T_commands (stateChangedHandler state w) = T_commands w"
  by (simp_all add: stateChangedHandler_def Threaded_emit_def)

lemma relay_stateChanges_Cons:
  "relay_stateChanges (state # states) q = relay_stateChanges states (relay_stateChanged q state)"
  by (simp add: relay_stateChanges_def)

lemma relay_stateChanges_threaded:
  "m_webSocket q = Some w \<Longrightarrow>
     \<exists>w'. m_webSocket (relay_stateChanges states q) = Some w'
         \<and> T_signals w' = T_signals w @ map T_stateChanged states
         \<and> T_m_state w' = last (T_m_state w # states)"
proof (induction states arbitrary: q w)
  case Nil
  then show ?case by (simp add: relay_stateChanges_def)
next
  case (Cons state states)
  have "m_webSocket (relay_stateChanged q state) = Some (stateChangedHandler state w)"
    using Cons.prems by (rule relay_stateChanged_Some(1))
  from Cons.IH [OF this] show ?case
    by (auto simp add: relay_stateChanges_Cons)
qed

lemma relay_stateChanges_notifications:
  "m_webSocket q = Some w \<Longrightarrow>
     statusNotifications (emitted (relay_stateChanges states q)) =
       statusNotifications (emitted q) @ tl (remdups_adj (m_status q # map statusOfState states))"
proof (induction states arbitrary: q w)
  case Nil
  then show ?case by (simp add: relay_stateChanges_def)
next
  case (Cons state states)
  let ?q1 = "relay_stateChanged q state"
  have ws: "m_webSocket ?q1 = Some (stateChangedHandler state w)"
    using Cons.prems by (rule relay_stateChanged_Some(1))
  have st: "m_status ?q1 = statusOfState state"
    using Cons.prems by (rule relay_stateChanged_Some(2))
  have em: "statusNotifications (emitted ?q1) =
              statusNotifications (emitted q)
                @ (if m_status q = statusOfState state then [] else [statusOfState state])"
    using Cons.prems by (rule relay_stateChanged_Some(3))
  show ?case
    using Cons.IH [OF ws] st em by (simp add: relay_stateChanges_Cons)
qed

lemma relay_stateChanges_status:
  "m_webSocket q = Some w \<Longrightarrow>
     m_status (relay_stateChanges states q) = last (m_status q # map statusOfState states)"
proof (induction states arbitrary: q w)
  case Nil
  then show ?case by (simp add: relay_stateChanges_def)
next
  case (Cons state states)
  have ws: "m_webSocket (relay_stateChanged q state) = Some (stateChangedHandler state w)"
    using Cons.prems by (rule relay_stateChanged_Some(1))
  have st: "m_status (relay_stateChanged q state) = statusOfState state"
    using Cons.prems by (rule relay_stateChanged_Some(2))
  show ?case using Cons.IH [OF ws] st by (simp add: relay_stateChanges_Cons)
qed

text \<open>
  Claim C6, as the code has it. For an element holding a socket and any sequence of
  \<^verbatim>\<open>stateChanged\<close> events of the engine: \<^verbatim>\<open>QWebSocketThreaded\<close> emits one
  \<^verbatim>\<open>stateChanged\<close> per event, with the same state and in the same order, and records
  the last state; the element shows each state as a status (\<open>statusOfState\<close>) and emits
  \<^verbatim>\<open>statusChanged\<close> only where that status differs from the one before it, so the
  notifications are the statuses of the events with adjacent repetitions removed,
  starting from the current status; the final status is that of the last event.
\<close>

theorem stateChanged_relayed_status_deduplicated:
  "m_webSocket q = Some w \<Longrightarrow>
     (\<exists>w'. m_webSocket (relay_stateChanges states q) = Some w'
          \<and> T_signals w' = T_signals w @ map T_stateChanged states
          \<and> T_m_state w' = last (T_m_state w # states))
     \<and> statusNotifications (emitted (relay_stateChanges states q)) =
         statusNotifications (emitted q) @ tl (remdups_adj (m_status q # map statusOfState states))
     \<and> status (relay_stateChanges states q) = last (m_status q # map statusOfState states)"
  using relay_stateChanges_threaded [of q w states] relay_stateChanges_notifications [of q w states]
    relay_stateChanges_status [of q w states]
  by (simp add: status_def)

theorem stateChanged_relayed_status_deduplicated_witness:
  "m_webSocket sampleElement = Some (QWebSocketThreaded_new UnconnectedState)
   \<and> statusNotifications (emitted (relay_stateChanges
        [HostLookupState, ConnectingState, ConnectedState, ClosingState, UnconnectedState]
        sampleElement))
      = [Connecting, Open, Closing, Closed]
   \<and> (\<exists>w'. m_webSocket (relay_stateChanges
        [HostLookupState, ConnectingState, ConnectedState, ClosingState, UnconnectedState]
        sampleElement) = Some w'
        \<and> T_signals w' = [T_stateChanged HostLookupState, T_stateChanged ConnectingState,
             T_stateChanged ConnectedState, T_stateChanged ClosingState,
             T_stateChanged UnconnectedState])"
proof -
  let ?states = "[HostLookupState, ConnectingState, ConnectedState, ClosingState, UnconnectedState]"
  have h: "m_webSocket sampleElement = Some (QWebSocketThreaded_new UnconnectedState)"
    by (simp add: sampleElement_eq)
  have st: "m_status sampleElement = Closed" and em: "emitted sampleElement = []"
    by (simp_all add: sampleElement_eq)
  note r = stateChanged_relayed_status_deduplicated [OF h, of ?states]
  from r obtain w' where w': "m_webSocket (relay_stateChanges ?states sampleElement) = Some w'"
    "T_signals w' = T_signals (QWebSocketThreaded_new UnconnectedState) @ map T_stateChanged ?states"
    by blast
  from r have n: "statusNotifications (emitted (relay_stateChanges ?states sampleElement)) =
      statusNotifications (emitted sampleElement)
        @ tl (remdups_adj (m_status sampleElement # map statusOfState ?states))"
    by blast
  have n': "statusNotifications (emitted (relay_stateChanges ?states sampleElement))
      = [Connecting, Open, Closing, Closed]"
    unfolding n by (simp add: st em)
  have s': "T_signals w' = map T_stateChanged ?states"
    using w'(2) by (simp add: QWebSocketThreaded_new_def)
  from h n' w'(1) s' show ?thesis by simp
qed

text \<open>
  The claim as stated fails on two events: the engine reports \<open>HostLookupState\<close> and then
  \<open>ConnectingState\<close>, and the element emits a single \<^verbatim>\<open>statusChanged(Connecting)\<close>.
\<close>

theorem two_state_changes_one_notification_counterexample:
  "statusNotifications (emitted (relay_stateChanges [HostLookupState, ConnectingState] sampleElement))
     = [Connecting]
   \<and> length (statusNotifications
        (emitted (relay_stateChanges [HostLookupState, ConnectingState] sampleElement)))
       < length [HostLookupState, ConnectingState]"
  by (simp add: sampleElement_eq relay_stateChanges_def relay_stateChanged_def onStateChanged_def
        setStatus_def setErrorString_def Let_def)

end
